theory Spec2Isabelle
  imports Main
begin

section \<open>Overview\<close>

text \<open>
  A shallow embedding of the scheduling core of the agent application: the schedule
  parser (\<open>scheduler/triggers.py\<close>), the SQLite store with its legacy migration
  (\<open>scheduler/persistence.py\<close>) and the scheduler engine
  (\<open>scheduler/scheduler.py\<close>).

  Conventions. State is passed explicitly: an operation takes the state and returns the
  new one, together with its result when it has one. An exception is a value (\<open>None\<close>
  or \<open>Inl\<close>), and every handler of the source is a branch of the model. The value of
  \<open>datetime.now()\<close> is an argument \<open>now\<close>; the reads of the clock within one
  synchronous stretch of code get the same value. What the Python library and the timer
  library do is taken from a record of functions (\<open>pylib\<close>), so the theorems hold
  for every library. Python's integers are unbounded, and the interpreter's optional
  limit on the length of a numeral that \<open>int\<close> converts is not modelled.
\<close>

section \<open>Python strings\<close>

text \<open>
  A Python \<open>str\<close> is modelled as a \<open>string\<close>: one \<open>char\<close> per code point, for
  the code points below 256. Within that range the characters for which
  \<open>str.isspace\<close> holds (the ones \<open>str.strip()\<close> and \<open>str.split()\<close> remove)
  are the ones listed in \<open>py_isspace\<close>, and the only characters matched by the
  regular-expression class \<open>\d\<close> are the ten ASCII digits.
\<close>

definition py_isspace :: "char \<Rightarrow> bool" where
  "py_isspace c \<longleftrightarrow>
     c \<in> set [CHR 0x09, CHR 0x0A, CHR 0x0B, CHR 0x0C, CHR 0x0D,
              CHR 0x1C, CHR 0x1D, CHR 0x1E, CHR 0x1F, CHR 0x20, CHR 0x85, CHR 0xA0]"

definition startswith :: "string \<Rightarrow> string \<Rightarrow> bool" where
  "startswith s p \<longleftrightarrow> take (length p) s = p"

definition strip :: "string \<Rightarrow> string" where
  "strip s = rev (dropWhile py_isspace (rev (dropWhile py_isspace s)))"

text \<open>\<open>s.split()\<close>: the maximal runs of non-whitespace characters, in order.\<close>

fun split_ws :: "string \<Rightarrow> string \<Rightarrow> string list" where
  "split_ws cur [] = (if cur = [] then [] else [cur])"
| "split_ws cur (c # cs) =
     (if py_isspace c then (if cur = [] then split_ws [] cs else cur # split_ws [] cs)
      else split_ws (cur @ [c]) cs)"

definition py_split :: "string \<Rightarrow> string list" where
  "py_split s = split_ws [] s"

text \<open>
  \<open>s.split(":", 1)[1]\<close>: the text after the first colon; \<open>None\<close> stands for the
  \<open>IndexError\<close> raised when \<open>s\<close> has no colon.
\<close>

definition after_first_colon :: "string \<Rightarrow> string option" where
  "after_first_colon s =
     (case dropWhile (\<lambda>c. c \<noteq> CHR '':'') s of [] \<Rightarrow> None | _ # r \<Rightarrow> Some r)"

definition is_digit :: "char \<Rightarrow> bool" where
  "is_digit c \<longleftrightarrow> c \<in> set ''0123456789''"

definition digit_val :: "char \<Rightarrow> nat" where
  "digit_val c = of_char c - 48"

text \<open>\<open>int(ds)\<close> on a string of decimal digits.\<close>

definition int_of_digits :: "string \<Rightarrow> nat" where
  "int_of_digits ds = foldl (\<lambda>a c. 10 * a + digit_val c) 0 ds"

definition digit_char :: "nat \<Rightarrow> char" where
  "digit_char d = ''0123456789'' ! (d mod 10)"

text \<open>\<open>str(n)\<close> for a non-negative integer: its decimal numeral without leading zeros.\<close>

fun str_nat :: "nat \<Rightarrow> string" where
  "str_nat n = (if n < 10 then [digit_char n] else str_nat (n div 10) @ [digit_char (n mod 10)])"

declare str_nat.simps [simp del]

section \<open>Regular expressions\<close>

text \<open>
  The patterns of \<open>triggers.py\<close> use character classes, alternation, concatenation,
  \<open>?\<close>, \<open>*\<close> and \<open>+\<close>, anchored by \<open>^\<close> and \<open>$\<close>; whether \<open>re.match\<close> succeeds
  on such a pattern depends only on the language of the pattern. The matcher works by
  derivatives.
\<close>

datatype rx = Cls "char list" | Eps | Alt rx rx | Seq rx rx | Star rx

definition Opt :: "rx \<Rightarrow> rx" where
  "Opt r = Alt r Eps"

definition Plus :: "rx \<Rightarrow> rx" where
  "Plus r = Seq r (Star r)"

fun nullable :: "rx \<Rightarrow> bool" where
  "nullable (Cls cs) = False"
| "nullable Eps = True"
| "nullable (Alt r s) = (nullable r \<or> nullable s)"
| "nullable (Seq r s) = (nullable r \<and> nullable s)"
| "nullable (Star r) = True"

text \<open>\<open>Cls []\<close> matches nothing; it is the derivative of a class by a character outside it.\<close>

fun deriv :: "char \<Rightarrow> rx \<Rightarrow> rx" where
  "deriv c (Cls cs) = (if c \<in> set cs then Eps else Cls [])"
| "deriv c Eps = Cls []"
| "deriv c (Alt r s) = Alt (deriv c r) (deriv c s)"
| "deriv c (Seq r s) =
     (if nullable r then Alt (Seq (deriv c r) s) (deriv c s) else Seq (deriv c r) s)"
| "deriv c (Star r) = Seq (deriv c r) (Star r)"

fun fullmatch :: "rx \<Rightarrow> string \<Rightarrow> bool" where
  "fullmatch r [] = nullable r"
| "fullmatch r (c # cs) = fullmatch (deriv c r) cs"

text \<open>
  \<open>re.match('^...$', s)\<close>: Python's \<open>$\<close> matches at the end of the string and also
  just before a newline that ends the string.
\<close>

definition re_match :: "rx \<Rightarrow> string \<Rightarrow> bool" where
  "re_match r s \<longleftrightarrow>
     fullmatch r s \<or> (s \<noteq> [] \<and> last s = CHR 0x0A \<and> fullmatch r (butlast s))"

text \<open>The declarative meaning of a pattern, used to reason about the matcher.\<close>

inductive in_lang :: "rx \<Rightarrow> string \<Rightarrow> bool" where
  L_Cls: "c \<in> set cs \<Longrightarrow> in_lang (Cls cs) [c]"
| L_Eps: "in_lang Eps []"
| L_AltL: "in_lang r w \<Longrightarrow> in_lang (Alt r s) w"
| L_AltR: "in_lang s w \<Longrightarrow> in_lang (Alt r s) w"
| L_Seq: "in_lang r u \<Longrightarrow> in_lang s v \<Longrightarrow> in_lang (Seq r s) (u @ v)"
| L_Star0: "in_lang (Star r) []"
| L_StarS: "in_lang r u \<Longrightarrow> in_lang (Star r) v \<Longrightarrow> in_lang (Star r) (u @ v)"

definition digit :: rx where
  "digit = Cls ''0123456789''"

definition lit :: "char \<Rightarrow> rx" where
  "lit c = Cls [c]"

text \<open>\<open>V(?:-V)?(?:,V(?:-V)?)*\<close> for a value pattern \<open>V\<close>.\<close>

definition rx_item :: "rx \<Rightarrow> rx" where
  "rx_item v = Seq v (Opt (Seq (lit CHR ''-'') v))"

definition rx_list :: "rx \<Rightarrow> rx" where
  "rx_list v = Seq (rx_item v) (Star (Seq (lit CHR '','') (rx_item v)))"

text \<open>\<open>^(\*|LIST|\*/\d+)$\<close>\<close>

definition rx_field :: "rx \<Rightarrow> rx" where
  "rx_field v =
     Alt (Alt (lit CHR ''*'') (rx_list v)) (Seq (lit CHR ''*'') (Seq (lit CHR ''/'') (Plus digit)))"

text \<open>The five value patterns of \<open>_validate_cron\<close>, as written there.\<close>

definition minute_value :: rx where
  "minute_value = Seq (Opt (Cls ''012345'')) digit"

definition hour_value :: rx where
  "hour_value = Alt (Seq (Opt (lit CHR ''1'')) digit) (Seq (lit CHR ''2'') (Cls ''0123''))"

definition dom_value :: rx where
  "dom_value = Alt (Alt (Cls ''123456789'') (Seq (Cls ''12'') digit)) (Seq (lit CHR ''3'') (Cls ''01''))"

definition month_value :: rx where
  "month_value = Alt (Cls ''123456789'') (Seq (lit CHR ''1'') (Cls ''012''))"

definition dow_value :: rx where
  "dow_value = Cls ''0123456''"

definition patterns :: "rx list" where
  "patterns = map rx_field [minute_value, hour_value, dom_value, month_value, dow_value]"

text \<open>\<open>^(\d+)([smhd])$\<close>\<close>

definition num_unit_rx :: rx where
  "num_unit_rx = Seq (Plus digit) (Cls ''smhd'')"

text \<open>
  The two groups of a successful match of \<open>^(\d+)([smhd])$\<close>: the unit is the last
  character before the optional final newline, the number is everything before it.
\<close>

definition match_num_unit :: "string \<Rightarrow> (string \<times> char) option" where
  "match_num_unit s =
     (if re_match num_unit_rx s
      then (let t = (if fullmatch num_unit_rx s then s else butlast s)
            in Some (butlast t, last t))
      else None)"

section \<open>Dates and times\<close>

text \<open>
  A naive \<open>datetime\<close> is its wall-clock time in microseconds since
  1970-01-01T00:00:00. \<open>datetime.fromisoformat\<close> may also return an aware value;
  \<open>Aware t off\<close> carries the wall-clock time and the UTC offset in minutes.
\<close>

type_synonym datetime = int

datatype pydatetime = Naive datetime | Aware datetime int

text \<open>The civil date (year, month, day) of a day number counted from 1970-01-01.\<close>

definition civil_from_days :: "int \<Rightarrow> int \<times> int \<times> int" where
  "civil_from_days days =
     (let z = days + 719468;
          era = z div 146097;
          doe = z - era * 146097;
          yoe = (doe - doe div 1460 + doe div 36524 - doe div 146096) div 365;
          doy = doe - (365 * yoe + yoe div 4 - yoe div 100);
          mp = (5 * doy + 2) div 153;
          d = doy - (153 * mp + 2) div 5 + 1;
          m = (if mp < 10 then mp + 3 else mp - 9);
          y = yoe + era * 400 + (if m \<le> 2 then 1 else 0)
      in (y, m, d))"

definition zpad :: "nat \<Rightarrow> int \<Rightarrow> string" where
  "zpad w n = (let d = str_nat (nat n) in replicate (w - length d) CHR ''0'' @ d)"

definition format_date :: "datetime \<Rightarrow> string" where
  "format_date t =
     (case civil_from_days (t div 86400000000) of
        (y, m, d) \<Rightarrow> zpad 4 y @ ''-'' @ zpad 2 m @ ''-'' @ zpad 2 d)"

definition format_time :: "datetime \<Rightarrow> string" where
  "format_time t =
     (let s = (t mod 86400000000) div 1000000
      in zpad 2 (s div 3600) @ '':'' @ zpad 2 ((s mod 3600) div 60) @ '':'' @ zpad 2 (s mod 60))"

text \<open>\<open>datetime.isoformat()\<close>: the fraction is printed only when it is not zero.\<close>

definition isoformat :: "datetime \<Rightarrow> string" where
  "isoformat t =
     format_date t @ ''T'' @ format_time t @
     (if t mod 1000000 = 0 then [] else ''.'' @ zpad 6 (t mod 1000000))"

definition utcoffset_str :: "int \<Rightarrow> string" where
  "utcoffset_str off =
     (if off < 0 then ''-'' else ''+'') @ zpad 2 (\<bar>off\<bar> div 60) @ '':'' @ zpad 2 (\<bar>off\<bar> mod 60)"

fun isoformat_dt :: "pydatetime \<Rightarrow> string" where
  "isoformat_dt (Naive t) = isoformat t"
| "isoformat_dt (Aware t off) = isoformat t @ utcoffset_str off"

text \<open>\<open>strftime('%Y-%m-%d %H:%M:%S')\<close>\<close>

fun strftime :: "pydatetime \<Rightarrow> string" where
  "strftime (Naive t) = format_date t @ '' '' @ format_time t"
| "strftime (Aware t off) = format_date t @ '' '' @ format_time t"

text \<open>
  SQLite's \<open>datetime(...)\<close> prints \<open>YYYY-MM-DD HH:MM:SS\<close>, with a space between
  date and time and no fraction.
\<close>

definition sqlite_datetime :: "datetime \<Rightarrow> string" where
  "sqlite_datetime t = format_date t @ '' '' @ format_time t"

text \<open>\<open>datetime.max\<close> is 9999-12-31T23:59:59.999999.\<close>

definition datetime_max :: datetime where
  "datetime_max = 253402300799999999"

text \<open>
  The seconds of \<open>timedelta(seconds=v)\<close>, \<open>timedelta(minutes=v)\<close>,
  \<open>timedelta(hours=v)\<close> or \<open>timedelta(days=v)\<close>; \<open>None\<close> is the
  \<open>OverflowError\<close> of a duration of more than 999999999 days.
\<close>

definition unit_seconds :: "char \<Rightarrow> nat" where
  "unit_seconds u =
     (if u = CHR ''s'' then 1 else if u = CHR ''m'' then 60
      else if u = CHR ''h'' then 3600 else 86400)"

definition timedelta :: "char \<Rightarrow> nat \<Rightarrow> nat option" where
  "timedelta u v =
     (if (v * unit_seconds u) div 86400 \<le> 999999999 then Some (v * unit_seconds u) else None)"

section \<open>Triggers (\<open>triggers.py\<close>)\<close>

text \<open>
  The three trigger classes of the timer library. A cron trigger keeps its crontab
  expression, an interval trigger its length in seconds and its start date, a date
  trigger its run date.
\<close>

datatype trigger =
  CronTrigger string
| IntervalTrigger nat "datetime option"
| DateTrigger datetime

text \<open>
  What the model takes from the Python library and from the timer library, whose code
  is not part of the repository:
  \<^item> \<open>fromisoformat\<close>: \<open>datetime.fromisoformat\<close>, \<open>None\<close> when it raises
    \<open>ValueError\<close>;
  \<open>from_crontab_ok\<close>: whether \<open>CronTrigger.from_crontab\<close> accepts the expression
    (it raises otherwise);
  \<^item> \<open>timestamp_str\<close>: the text of \<open>datetime.timestamp()\<close> in an f-string;
  \<^item> \<open>job_next_run\<close>: the \<open>next_run_time\<close> attribute of the job that
    \<open>add_job\<close> returns for a trigger at a given time: \<open>None\<close> when reading the
    attribute raises \<open>AttributeError\<close>, \<open>Some None\<close> when it is \<open>None\<close>;
  \<^item> \<open>repr_str\<close>: \<open>str(KeyError(k))\<close> for a string key.
\<close>

record pylib =
  fromisoformat :: "string \<Rightarrow> pydatetime option"
  from_crontab_ok :: "string \<Rightarrow> bool"
  timestamp_str :: "datetime \<Rightarrow> string"
  job_next_run :: "trigger \<Rightarrow> datetime \<Rightarrow> pydatetime option option"
  repr_str :: "string \<Rightarrow> string"

definition validate_cron :: "string \<Rightarrow> bool" where
  "validate_cron cron_expr =
     (let parts = py_split cron_expr
      in length parts = 5 \<and> list_all (\<lambda>(pattern, part). re_match pattern part) (zip patterns parts))"

definition parse_cron :: "pylib \<Rightarrow> string \<Rightarrow> trigger option" where
  "parse_cron lib schedule_spec =
     (let cron_expr = strip (drop 5 schedule_spec)
      in if \<not> validate_cron cron_expr then None
         else if from_crontab_ok lib cron_expr then Some (CronTrigger cron_expr)
         else None)"

definition parse_interval :: "string \<Rightarrow> datetime option \<Rightarrow> trigger option" where
  "parse_interval schedule_spec start_time =
     (case match_num_unit (strip (drop 6 schedule_spec)) of
        None \<Rightarrow> None
      | Some (num, unit) \<Rightarrow>
          (let v = int_of_digits num
           in if v \<le> 0 then None
              else (case timedelta unit v of
                      None \<Rightarrow> None
                    | Some secs \<Rightarrow> Some (IntervalTrigger secs start_time))))"

text \<open>
  \<open>_parse_date\<close>: comparing an aware run date with the naive \<open>datetime.now()\<close>
  raises \<open>TypeError\<close>, which the handler turns into \<open>None\<close>; a run date in the
  past only logs a warning.
\<close>

definition parse_date :: "pylib \<Rightarrow> string \<Rightarrow> trigger option" where
  "parse_date lib schedule_spec =
     (case fromisoformat lib (strip (drop 3 schedule_spec)) of
        None \<Rightarrow> None
      | Some (Aware t off) \<Rightarrow> None
      | Some (Naive run_date) \<Rightarrow> Some (DateTrigger run_date))"

definition parse_relative :: "string \<Rightarrow> datetime \<Rightarrow> trigger option" where
  "parse_relative schedule_spec now =
     (case match_num_unit (strip (drop 3 schedule_spec)) of
        None \<Rightarrow> None
      | Some (num, unit) \<Rightarrow>
          (let v = int_of_digits num
           in if v \<le> 0 then None
              else (case timedelta unit v of
                      None \<Rightarrow> None
                    | Some secs \<Rightarrow>
                        (let run_date = now + int secs * 1000000
                         in if run_date \<le> datetime_max then Some (DateTrigger run_date)
                            else None))))"

text \<open>\<open>TriggerParser.parse\<close>; \<open>now\<close> is what \<open>datetime.now()\<close> returns.\<close>

definition parse :: "pylib \<Rightarrow> string \<Rightarrow> datetime option \<Rightarrow> datetime \<Rightarrow> trigger option" where
  "parse lib schedule_spec start_time now =
     (if startswith schedule_spec ''cron:'' then parse_cron lib schedule_spec
      else if startswith schedule_spec ''every '' then parse_interval schedule_spec start_time
      else if startswith schedule_spec ''at:'' then parse_date lib schedule_spec
      else if startswith schedule_spec ''in '' then parse_relative schedule_spec now
      else None)"

datatype trigger_info = CronInfo string | IntervalInfo nat | DateInfo string

fun get_trigger_info :: "trigger \<Rightarrow> trigger_info" where
  "get_trigger_info (CronTrigger e) = CronInfo e"
| "get_trigger_info (IntervalTrigger secs start) = IntervalInfo secs"
| "get_trigger_info (DateTrigger run_date) = DateInfo (isoformat run_date)"

datatype py_error = KeyError | AttributeError | JobLookupError

text \<open>The dictionary \<open>unit_names\<close> built for a value.\<close>

definition unit_names :: "nat \<Rightarrow> (char \<times> string) list" where
  "unit_names v =
     [(CHR ''s'', if v = 1 then ''second'' else ''seconds''),
      (CHR ''m'', if v = 1 then ''minute'' else ''minutes''),
      (CHR ''h'', if v = 1 then ''hour'' else ''hours''),
      (CHR ''d'', if v = 1 then ''day'' else ''days'')]"

text \<open>
  The body of \<open>get_human_readable\<close> inside its \<open>try\<close>; \<open>Inl\<close> is an exception
  that reaches the outer handler. The inner handler of the \<open>at:\<close> branch catches
  whatever \<open>fromisoformat\<close> raises.
\<close>

definition describe_num_unit :: "string \<Rightarrow> string \<Rightarrow> string \<Rightarrow> py_error + string" where
  "describe_num_unit word schedule_spec payload =
     (case match_num_unit (strip payload) of
        None \<Rightarrow> Inr schedule_spec
      | Some (num, unit) \<Rightarrow>
          (let v = int_of_digits num
           in case map_of (unit_names v) unit of
                None \<Rightarrow> Inl KeyError
              | Some name \<Rightarrow> Inr (word @ '' '' @ str_nat v @ '' '' @ name)))"

definition human_readable_body :: "pylib \<Rightarrow> string \<Rightarrow> py_error + string" where
  "human_readable_body lib schedule_spec =
     (if startswith schedule_spec ''cron:''
      then Inr (''Cron schedule: '' @ strip (drop 5 schedule_spec))
      else if startswith schedule_spec ''every ''
      then describe_num_unit ''Every'' schedule_spec (drop 6 schedule_spec)
      else if startswith schedule_spec ''at:''
      then (let date_str = strip (drop 3 schedule_spec)
            in case fromisoformat lib date_str of
                 None \<Rightarrow> Inr (''At '' @ date_str)
               | Some run_date \<Rightarrow> Inr (''At '' @ strftime run_date))
      else if startswith schedule_spec ''in ''
      then describe_num_unit ''In'' schedule_spec (drop 3 schedule_spec)
      else Inr schedule_spec)"

definition get_human_readable :: "pylib \<Rightarrow> string \<Rightarrow> string" where
  "get_human_readable lib schedule_spec =
     (case human_readable_body lib schedule_spec of
        Inl e \<Rightarrow> schedule_spec
      | Inr text \<Rightarrow> text)"

section \<open>The store (\<open>persistence.py\<close>)\<close>

text \<open>
  The two tables, with the columns the scheduler writes and reads (the row id and
  \<open>created_at\<close>, which SQLite fills in and no code reads, are left out), and the two
  files of the legacy migration. Every method of \<open>SchedulerPersistence\<close> wraps its
  SQLite calls in a handler that logs the error and goes on: \<open>db_ok\<close> says whether
  those calls succeed, \<open>rename_ok\<close> whether renaming the legacy file does.
\<close>

record schedule_row =
  row_task_id :: string
  row_job_id :: string
  row_schedule_type :: string
  row_schedule_value :: string
  row_next_run_time :: "string option"

record task_run =
  run_task_id :: string
  run_status :: string
  run_start_time :: "string option"
  run_end_time :: "string option"
  run_error :: "string option"

text \<open>
  A legacy file maps task ids to schedules; each schedule may have a \<open>job_id\<close>, a
  \<open>next_run_time\<close> and a \<open>trigger\<close>, whose keys are strings but for \<open>seconds\<close>,
  an integer. An absent key is \<open>None\<close>. \<open>BadJson\<close> is a file that
  \<open>json.load\<close> refuses.
\<close>

record legacy_trigger =
  lt_type :: "string option"
  lt_minute :: "string option"
  lt_hour :: "string option"
  lt_day :: "string option"
  lt_month :: "string option"
  lt_day_of_week :: "string option"
  lt_seconds :: "int option"
  lt_run_date :: "string option"

record legacy_schedule =
  ls_trigger :: "legacy_trigger option"
  ls_job_id :: "string option"
  ls_next_run_time :: "string option"

datatype legacy_file = BadJson | Legacy "(string \<times> legacy_schedule) list"

record store =
  schedules :: "schedule_row list"
  task_runs :: "task_run list"
  db_ok :: bool
  json_file :: "legacy_file option"
  migrated_file :: "legacy_file option"
  rename_ok :: bool

definition has_schedule :: "string \<Rightarrow> schedule_row list \<Rightarrow> bool" where
  "has_schedule task_id rows \<longleftrightarrow> task_id \<in> set (map row_task_id rows)"

definition cron_parts :: "legacy_trigger \<Rightarrow> string list" where
  "cron_parts trigger =
     concat (map (\<lambda>field. case field trigger of None \<Rightarrow> [] | Some v \<Rightarrow> [v])
       [lt_minute, lt_hour, lt_day, lt_month, lt_day_of_week])"

fun join_spaces :: "string list \<Rightarrow> string" where
  "join_spaces [] = []"
| "join_spaces [x] = x"
| "join_spaces (x # y # ys) = x @ '' '' @ join_spaces (y # ys)"

definition interval_value :: "int \<Rightarrow> string" where
  "interval_value seconds =
     (if seconds > 0 then
        (if seconds < 60 then ''every '' @ str_nat (nat seconds) @ ''s''
         else if seconds < 3600 then ''every '' @ str_nat (nat (seconds div 60)) @ ''m''
         else if seconds < 86400 then ''every '' @ str_nat (nat (seconds div 3600)) @ ''h''
         else ''every '' @ str_nat (nat (seconds div 86400)) @ ''d'')
      else ''unknown'')"

text \<open>The \<open>schedule_value\<close> that \<open>_migrate_from_json\<close> builds from a legacy trigger.\<close>

definition legacy_schedule_value :: "string \<Rightarrow> legacy_trigger option \<Rightarrow> string" where
  "legacy_schedule_value schedule_type trigger =
     (if schedule_type = ''cron'' then
        (case trigger of
           None \<Rightarrow> ''unknown''
         | Some t \<Rightarrow>
             if length (cron_parts t) = 5 then ''cron:'' @ join_spaces (cron_parts t)
             else ''unknown'')
      else if schedule_type = ''interval'' then
        interval_value (case trigger of None \<Rightarrow> 0
                        | Some t \<Rightarrow> (case lt_seconds t of None \<Rightarrow> 0 | Some n \<Rightarrow> n))
      else if schedule_type = ''date'' then
        (case trigger of
           None \<Rightarrow> ''unknown''
         | Some t \<Rightarrow>
             (case lt_run_date t of
                None \<Rightarrow> ''unknown''
              | Some run_date \<Rightarrow> if run_date = [] then ''unknown'' else ''at:'' @ run_date))
      else ''unknown'')"

definition legacy_schedule_type :: "legacy_trigger option \<Rightarrow> string" where
  "legacy_schedule_type trigger =
     (case trigger of
        None \<Rightarrow> ''unknown''
      | Some t \<Rightarrow> (case lt_type t of None \<Rightarrow> ''unknown'' | Some ty \<Rightarrow> ty))"



definition save_schedule ::
  "string \<Rightarrow> string \<Rightarrow> string \<Rightarrow> string \<Rightarrow> pydatetime option \<Rightarrow> store \<Rightarrow> store" where
  "save_schedule task_id job_id schedule_type schedule_value next_run_time st =
     (if \<not> db_ok st then st
      else (let next_run_time_str = map_option isoformat_dt next_run_time
            in if has_schedule task_id (schedules st)
               then st\<lparr>schedules :=
                      map (\<lambda>r. if row_task_id r = task_id
                                then r\<lparr>row_job_id := job_id, row_schedule_type := schedule_type,
                                       row_schedule_value := schedule_value,
                                       row_next_run_time := next_run_time_str\<rparr>
                                else r) (schedules st)\<rparr>
               else st\<lparr>schedules := schedules st @
                      [\<lparr>row_task_id = task_id, row_job_id = job_id,
                        row_schedule_type = schedule_type, row_schedule_value = schedule_value,
                        row_next_run_time = next_run_time_str\<rparr>]\<rparr>))"

definition delete_schedule :: "string \<Rightarrow> store \<Rightarrow> store" where
  "delete_schedule task_id st =
     (if \<not> db_ok st then st
      else st\<lparr>schedules := filter (\<lambda>r. row_task_id r \<noteq> task_id) (schedules st)\<rparr>)"

definition get_schedule :: "string \<Rightarrow> store \<Rightarrow> schedule_row option" where
  "get_schedule task_id st =
     (if \<not> db_ok st then None else find (\<lambda>r. row_task_id r = task_id) (schedules st))"

definition get_all_schedules_rows :: "store \<Rightarrow> schedule_row list" where
  "get_all_schedules_rows st = (if \<not> db_ok st then [] else schedules st)"

definition log_task_run ::
  "string \<Rightarrow> string \<Rightarrow> datetime \<Rightarrow> datetime option \<Rightarrow> string option \<Rightarrow> store \<Rightarrow> store" where
  "log_task_run task_id status start_time end_time error st =
     (if \<not> db_ok st then st
      else st\<lparr>task_runs := task_runs st @
             [\<lparr>run_task_id = task_id, run_status = status,
               run_start_time = Some (isoformat start_time),
               run_end_time = map_option isoformat end_time, run_error = error\<rparr>]\<rparr>)"

text \<open>SQLite compares two text values byte by byte; a proper prefix is smaller.\<close>

fun text_lt :: "string \<Rightarrow> string \<Rightarrow> bool" where
  "text_lt [] [] = False"
| "text_lt [] (y # ys) = True"
| "text_lt (x # xs) [] = False"
| "text_lt (x # xs) (y # ys) = ((of_char x :: nat) < of_char y \<or> (x = y \<and> text_lt xs ys))"

text \<open>
  \<open>cleanup_old_runs\<close>: \<open>DELETE FROM task_runs WHERE start_time < datetime('now', '-N days')\<close>.
  \<open>now\<close> is the time of the call; a row whose \<open>start_time\<close> is NULL is kept, the
  comparison being NULL.
\<close>

definition cleanup_old_runs :: "nat \<Rightarrow> datetime \<Rightarrow> store \<Rightarrow> store" where
  "cleanup_old_runs days now st =
     (if \<not> db_ok st then st
      else (let cutoff = sqlite_datetime (now - int days * 86400000000)
            in st\<lparr>task_runs :=
                 filter (\<lambda>r. case run_start_time r of None \<Rightarrow> True
                              | Some start \<Rightarrow> \<not> text_lt start cutoff) (task_runs st)\<rparr>))"

section \<open>The scheduler (\<open>scheduler.py\<close>)\<close>

text \<open>
  The fields of an \<open>AgentTask\<close> that the scheduler reads or writes; a job of the
  timer engine; the events handed to \<open>_notify_listeners\<close>. A listener's own
  exception is caught there, so notifying never raises; what the listeners do with an
  event is outside the scheduler, and the model records the events in the order they
  are sent.
\<close>

record agent_task =
  status :: string
  progress :: int
  result :: "string option"
  error :: "string option"
  schedule :: "string option"
  next_run_time :: "pydatetime option"
  updated_at :: datetime

datatype job_func = ExecuteTask | CleanupTask

record job =
  job_id :: string
  job_func :: job_func
  job_args :: "string list"
  job_trigger :: trigger
  job_next_run_time :: "pydatetime option option"

datatype event =
  ScheduleUpdate string string string string string "string option"
| ScheduleRemoved string
| TaskStarted string string
| TaskFinished string string string string "string option"
| TaskError string string string

text \<open>
  The state: the Task Registry \<open>agent.tasks\<close>, the two tracking structures, the
  job table of the timer engine, the store, and the events sent so far.
\<close>

record scheduler =
  tasks :: "string \<rightharpoonup> agent_task"
  scheduled_tasks :: "string \<rightharpoonup> string"
  running_tasks :: "string set"
  jobs :: "string \<rightharpoonup> job"
  persistence :: store
  events :: "event list"

definition notify_listeners :: "event \<Rightarrow> scheduler \<Rightarrow> scheduler" where
  "notify_listeners e s = s\<lparr>events := events s @ [e]\<rparr>"

definition schedule_type_of :: "trigger \<Rightarrow> string" where
  "schedule_type_of trigger =
     (case trigger of
        CronTrigger e \<Rightarrow> ''cron''
      | IntervalTrigger secs start \<Rightarrow> ''interval''
      | DateTrigger d \<Rightarrow> ''date'')"

definition new_job_id :: "pylib \<Rightarrow> string \<Rightarrow> datetime \<Rightarrow> string" where
  "new_job_id lib task_id now = ''task_'' @ task_id @ ''_'' @ timestamp_str lib now"

text \<open>\<open>scheduler.add_job(..., replace_existing=True)\<close>: a job of the same id is replaced.\<close>

definition add_job :: "job \<Rightarrow> scheduler \<Rightarrow> scheduler" where
  "add_job j s = s\<lparr>jobs := (jobs s)(job_id j \<mapsto> j)\<rparr>"

text \<open>
  \<open>schedule_task\<close>. The only step after \<open>add_job\<close> that can raise in the model is
  reading \<open>job.next_run_time\<close>; the handler then logs and returns \<open>False\<close>, with
  the job and the tracking entry in place.
\<close>

definition schedule_task ::
  "pylib \<Rightarrow> string \<Rightarrow> string \<Rightarrow> datetime option \<Rightarrow> datetime \<Rightarrow> scheduler \<Rightarrow> bool \<times> scheduler" where
  "schedule_task lib task_id schedule_spec start_time now s =
     (case tasks s task_id of
        None \<Rightarrow> (False, s)
      | Some task0 \<Rightarrow>
          (case parse lib schedule_spec start_time now of
             None \<Rightarrow> (False, s)
           | Some trigger \<Rightarrow>
               (let schedule_type = schedule_type_of trigger;
                    j = \<lparr>job_id = new_job_id lib task_id now, job_func = ExecuteTask,
                         job_args = [task_id], job_trigger = trigger,
                         job_next_run_time = job_next_run lib trigger now\<rparr>;
                    s1 = add_job j s;
                    s2 = s1\<lparr>scheduled_tasks := (scheduled_tasks s1)(task_id \<mapsto> job_id j)\<rparr>;
                    human_readable = get_human_readable lib schedule_spec
                in case job_next_run_time j of
                     None \<Rightarrow> (False, s2)
                   | Some nrt \<Rightarrow>
                       (let s3 = s2\<lparr>persistence :=
                                   save_schedule task_id (job_id j) schedule_type schedule_spec nrt
                                     (persistence s2)\<rparr>;
                            s4 = s3\<lparr>tasks := (tasks s3)(task_id \<mapsto>
                                   task0\<lparr>schedule := Some human_readable, next_run_time := nrt\<rparr>)\<rparr>;
                            s5 = notify_listeners
                                   (ScheduleUpdate task_id (job_id j) schedule_type schedule_spec
                                      human_readable (map_option isoformat_dt nrt)) s4
                        in (True, s5)))))"

text \<open>\<open>scheduler.remove_job\<close> raises \<open>JobLookupError\<close> for an id it does not know.\<close>

definition remove_job :: "string \<Rightarrow> (string \<rightharpoonup> job) \<Rightarrow> py_error + (string \<rightharpoonup> job)" where
  "remove_job jid js = (case js jid of None \<Rightarrow> Inl JobLookupError | Some j \<Rightarrow> Inr (js(jid := None)))"

definition cancel_task :: "string \<Rightarrow> scheduler \<Rightarrow> bool \<times> scheduler" where
  "cancel_task task_id s =
     (case scheduled_tasks s task_id of
        None \<Rightarrow> (False, s)
      | Some jid \<Rightarrow>
          (let s1 = (case remove_job jid (jobs s) of
                       Inl e \<Rightarrow> s
                     | Inr js \<Rightarrow> s\<lparr>jobs := js\<rparr>);
               s2 = s1\<lparr>scheduled_tasks := (scheduled_tasks s1)(task_id := None)\<rparr>;
               s3 = s2\<lparr>persistence := delete_schedule task_id (persistence s2)\<rparr>;
               s4 = (case tasks s3 task_id of
                       None \<Rightarrow> s3
                     | Some task \<Rightarrow>
                         s3\<lparr>tasks := (tasks s3)(task_id \<mapsto>
                              task\<lparr>schedule := None, next_run_time := None\<rparr>)\<rparr>);
               s5 = notify_listeners (ScheduleRemoved task_id) s4
           in (True, s5)))"

record schedule_info =
  info_task_id :: string
  info_job_id :: string
  info_schedule_type :: string
  info_schedule_value :: string
  info_human_readable :: string
  info_next_run_time :: "string option"
  info_trigger :: trigger_info

definition get_task_schedule :: "pylib \<Rightarrow> scheduler \<Rightarrow> string \<Rightarrow> schedule_info option" where
  "get_task_schedule lib s task_id =
     (case scheduled_tasks s task_id of
        None \<Rightarrow> None
      | Some jid \<Rightarrow>
          (case jobs s jid of
             None \<Rightarrow> None
           | Some j \<Rightarrow>
               (case get_schedule task_id (persistence s) of
                  None \<Rightarrow> None
                | Some row \<Rightarrow>
                    (case job_next_run_time j of
                       None \<Rightarrow> None
                     | Some nrt \<Rightarrow>
                         Some \<lparr>info_task_id = task_id, info_job_id = jid,
                               info_schedule_type = row_schedule_type row,
                               info_schedule_value = row_schedule_value row,
                               info_human_readable = get_human_readable lib (row_schedule_value row),
                               info_next_run_time = map_option isoformat_dt nrt,
                               info_trigger = get_trigger_info (job_trigger j)\<rparr>))))"


text \<open>
  The timer callback \<open>_execute_task\<close> suspends at \<open>await agent._execute_task(...)\<close>.
  \<open>execute_begin\<close> is the part before the \<open>await\<close>; \<open>None\<close> is the early return
  of a task that is unknown or already running. The Executor is any function that, from
  the state at the \<open>await\<close>, gives its outcome, the task object as the callback sees
  it afterwards, and the state afterwards: other callbacks and requests may have run in
  between. An outcome is a normal return or an exception that \<open>except Exception\<close>
  catches.
\<close>

datatype exec_outcome = Returned | Raised string

type_synonym executor = "string \<Rightarrow> scheduler \<Rightarrow> exec_outcome \<times> agent_task \<times> scheduler"

definition execute_begin :: "string \<Rightarrow> datetime \<Rightarrow> scheduler \<Rightarrow> scheduler option" where
  "execute_begin task_id now s =
     (case tasks s task_id of
        None \<Rightarrow> None
      | Some task \<Rightarrow>
          if task_id \<in> running_tasks s then None
          else (let s1 = s\<lparr>running_tasks := insert task_id (running_tasks s)\<rparr>;
                    s2 = s1\<lparr>persistence :=
                           log_task_run task_id ''running'' now None None (persistence s1)\<rparr>;
                    s3 = notify_listeners (TaskStarted task_id (isoformat now)) s2;
                    s4 = s3\<lparr>tasks := (tasks s3)(task_id \<mapsto>
                           task\<lparr>status := ''pending'', progress := 0, result := None,
                                error := None, updated_at := now\<rparr>)\<rparr>
                in Some s4))"

text \<open>The handler \<open>except Exception as e\<close>, with \<open>msg\<close> for \<open>str(e)\<close>.\<close>

definition execute_failed :: "string \<Rightarrow> datetime \<Rightarrow> datetime \<Rightarrow> string \<Rightarrow> scheduler \<Rightarrow> scheduler" where
  "execute_failed task_id start_time end_time msg s =
     (let s1 = s\<lparr>persistence :=
                 log_task_run task_id ''failed'' start_time (Some end_time) (Some msg) (persistence s)\<rparr>;
          s2 = notify_listeners (TaskError task_id msg (isoformat end_time)) s1
      in if task_id \<in> running_tasks s2
         then s2\<lparr>running_tasks := running_tasks s2 - {task_id}\<rparr>
         else s2)"

text \<open>
  The part after the \<open>await\<close>. \<open>running_tasks.remove(task_id)\<close> raises
  \<open>KeyError\<close> when the id is no longer in the set, which the handler catches too.
\<close>

definition execute_end ::
  "pylib \<Rightarrow> string \<Rightarrow> datetime \<Rightarrow> datetime \<Rightarrow> exec_outcome \<times> agent_task \<times> scheduler \<Rightarrow> scheduler" where
  "execute_end lib task_id start_time end_time r =
     (case r of (outcome, task, s) \<Rightarrow>
        (case outcome of
           Raised msg \<Rightarrow> execute_failed task_id start_time end_time msg s
         | Returned \<Rightarrow>
             (let s1 = s\<lparr>persistence :=
                         log_task_run task_id (status task) start_time (Some end_time) (error task)
                           (persistence s)\<rparr>;
                  s2 = notify_listeners
                         (TaskFinished task_id (status task) (isoformat start_time)
                            (isoformat end_time) (error task)) s1
              in if task_id \<in> running_tasks s2
                 then s2\<lparr>running_tasks := running_tasks s2 - {task_id}\<rparr>
                 else execute_failed task_id start_time end_time (repr_str lib task_id) s2)))"

definition execute_task ::
  "pylib \<Rightarrow> executor \<Rightarrow> string \<Rightarrow> datetime \<Rightarrow> datetime \<Rightarrow> scheduler \<Rightarrow> scheduler" where
  "execute_task lib ex task_id start_time end_time s =
     (case execute_begin task_id start_time s of
        None \<Rightarrow> s
      | Some s1 \<Rightarrow> execute_end lib task_id start_time end_time (ex task_id s1))"

text \<open>
  The test of \<open>_load_schedules\<close> on a row of type \<open>date\<close>: true when the inner
  \<open>try\<close> reaches \<open>continue\<close>. Its bare \<open>except\<close> swallows the \<open>IndexError\<close>
  of a value without a colon, the \<open>ValueError\<close> of \<open>fromisoformat\<close> and the
  \<open>TypeError\<close> of comparing an aware date with \<open>datetime.now()\<close>.
\<close>

definition past_date :: "pylib \<Rightarrow> datetime \<Rightarrow> string \<Rightarrow> bool" where
  "past_date lib now schedule_value =
     (case after_first_colon schedule_value of
        None \<Rightarrow> False
      | Some r \<Rightarrow>
          (case fromisoformat lib (strip r) of
             None \<Rightarrow> False
           | Some (Aware t off) \<Rightarrow> False
           | Some (Naive run_date) \<Rightarrow> run_date \<le> now))"

fun load_loop :: "pylib \<Rightarrow> datetime \<Rightarrow> schedule_row list \<Rightarrow> scheduler \<Rightarrow> scheduler" where
  "load_loop lib now [] s = s"
| "load_loop lib now (r # rs) s =
     (if tasks s (row_task_id r) = None then load_loop lib now rs s
      else if row_schedule_type r = ''date'' \<and> past_date lib now (row_schedule_value r)
      then load_loop lib now rs s
      else load_loop lib now rs
             (snd (schedule_task lib (row_task_id r) (row_schedule_value r) None now s)))"

definition load_schedules :: "pylib \<Rightarrow> datetime \<Rightarrow> scheduler \<Rightarrow> scheduler" where
  "load_schedules lib now s = load_loop lib now (get_all_schedules_rows (persistence s)) s"

text \<open>\<open>_schedule_cleanup\<close> and \<open>start\<close>.\<close>

definition schedule_cleanup :: "pylib \<Rightarrow> datetime \<Rightarrow> scheduler \<Rightarrow> scheduler" where
  "schedule_cleanup lib now s =
     add_job \<lparr>job_id = ''cleanup_task'', job_func = CleanupTask, job_args = [],
              job_trigger = CronTrigger ''0 0 * * *'',
              job_next_run_time = job_next_run lib (CronTrigger ''0 0 * * *'') now\<rparr> s"

definition start :: "pylib \<Rightarrow> datetime \<Rightarrow> scheduler \<Rightarrow> scheduler" where
  "start lib now s = schedule_cleanup lib now (load_schedules lib now s)"

text \<open>\<open>_cleanup_task\<close> with the retention read from the environment.\<close>

definition cleanup_task :: "nat \<Rightarrow> datetime \<Rightarrow> scheduler \<Rightarrow> scheduler" where
  "cleanup_task retention_days now s =
     s\<lparr>persistence := cleanup_old_runs retention_days now (persistence s)\<rparr>"

section \<open>The specification's wording\<close>












text \<open>
  The job that \<open>schedule_task\<close> registers and the row it saves, for the statements
  below.
\<close>

definition new_job :: "pylib \<Rightarrow> string \<Rightarrow> trigger \<Rightarrow> datetime \<Rightarrow> job" where
  "new_job lib task_id trigger now =
     \<lparr>job_id = new_job_id lib task_id now, job_func = ExecuteTask, job_args = [task_id],
      job_trigger = trigger, job_next_run_time = job_next_run lib trigger now\<rparr>"





text \<open>
  For the statements about the migration: the row inserted for a legacy entry, and the
  trigger shapes that are none of the three known ones.
\<close>

definition legacy_row :: "string \<Rightarrow> legacy_schedule \<Rightarrow> schedule_row" where
  "legacy_row task_id entry =
     \<lparr>row_task_id = task_id,
      row_job_id = (case ls_job_id entry of None \<Rightarrow> [] | Some j \<Rightarrow> j),
      row_schedule_type = legacy_schedule_type (ls_trigger entry),
      row_schedule_value =
        legacy_schedule_value (legacy_schedule_type (ls_trigger entry)) (ls_trigger entry),
      row_next_run_time = ls_next_run_time entry\<rparr>"


section \<open>Sample values\<close>

text \<open>
  A library instance, a task, an empty store and a scheduler state on which the
  theorems below are instantiated. The sample library parses one date, accepts every
  crontab expression that passes validation and gives every job a next run time.
\<close>

definition example_lib :: pylib where
  "example_lib =
     \<lparr>fromisoformat =
        (\<lambda>s. if s = ''2020-01-01T00:00:00'' then Some (Naive 1577836800000000) else None),
      from_crontab_ok = (\<lambda>e. True),
      timestamp_str = (\<lambda>t. str_nat (nat (t div 1000000)) @ ''.0''),
      job_next_run = (\<lambda>trigger now. Some (Some (Aware now 0))),
      repr_str = (\<lambda>k. [CHR 0x27] @ k @ [CHR 0x27])\<rparr>"

definition example_task :: agent_task where
  "example_task =
     \<lparr>status = ''completed'', progress = 100, result = None, error = None,
      schedule = None, next_run_time = None, updated_at = 0\<rparr>"

definition empty_store :: store where
  "empty_store =
     \<lparr>schedules = [], task_runs = [], db_ok = True, json_file = None, migrated_file = None,
      rename_ok = True\<rparr>"

text \<open>Two registered tasks; \<open>t1\<close> is being executed.\<close>

definition example_scheduler :: scheduler where
  "example_scheduler =
     \<lparr>tasks = [''t1'' \<mapsto> example_task, ''t2'' \<mapsto> example_task], scheduled_tasks = Map.empty,
      running_tasks = {''t1''}, jobs = Map.empty, persistence = empty_store, events = []\<rparr>"

definition failing_executor :: executor where
  "failing_executor task_id s = (Raised ''boom'', example_task, s)"


text \<open>A library whose jobs have no \<open>next_run_time\<close> attribute to read.\<close>

definition pending_lib :: pylib where
  "pending_lib = example_lib\<lparr>job_next_run := (\<lambda>trigger now. None)\<rparr>"

text \<open>One registered task, nothing scheduled; the flag says whether the store works.\<close>

definition idle_scheduler :: "bool \<Rightarrow> scheduler" where
  "idle_scheduler ok =
     \<lparr>tasks = [''t1'' \<mapsto> example_task], scheduled_tasks = Map.empty, running_tasks = {},
      jobs = Map.empty, persistence = empty_store\<lparr>db_ok := ok\<rparr>, events = []\<rparr>"

text \<open>
  A scheduler that tracks an hourly schedule of \<open>t1\<close>; the flags say whether
  \<open>t1\<close> is still in the registry and whether the store works.
\<close>

definition example_job :: job where
  "example_job =
     \<lparr>job_id = ''task_t1_5.0'', job_func = ExecuteTask, job_args = [''t1''],
      job_trigger = IntervalTrigger 3600 None, job_next_run_time = Some (Some (Aware 3605000000 0))\<rparr>"

definition example_row :: schedule_row where
  "example_row =
     \<lparr>row_task_id = ''t1'', row_job_id = ''task_t1_5.0'', row_schedule_type = ''interval'',
      row_schedule_value = ''every 1h'', row_next_run_time = Some ''1970-01-01T01:00:05+00:00''\<rparr>"

definition tracked_scheduler :: "bool \<Rightarrow> bool \<Rightarrow> scheduler" where
  "tracked_scheduler registered ok =
     \<lparr>tasks = (if registered
               then [''t1'' \<mapsto> example_task\<lparr>schedule := Some ''Every 1 hour'',
                                                 next_run_time := Some (Aware 3605000000 0)\<rparr>]
               else Map.empty),
      scheduled_tasks = [''t1'' \<mapsto> ''task_t1_5.0''],
      running_tasks = {}, jobs = [''task_t1_5.0'' \<mapsto> example_job],
      persistence = empty_store\<lparr>schedules := [example_row], db_ok := ok\<rparr>, events = []\<rparr>"




text \<open>
  A legacy file of three entries (one already migrated, one cron, one of an unknown
  type), and a store with one run logged on 2024-01-15 at 08:00.
\<close>

definition cron_legacy :: legacy_schedule where
  "cron_legacy =
     \<lparr>ls_trigger = Some \<lparr>lt_type = Some ''cron'', lt_minute = Some ''0'', lt_hour = Some ''9'',
         lt_day = Some ''*'', lt_month = Some ''*'', lt_day_of_week = Some ''1-5'',
         lt_seconds = None, lt_run_date = None\<rparr>,
      ls_job_id = Some ''job2'', ls_next_run_time = None\<rparr>"

definition odd_legacy :: legacy_schedule where
  "odd_legacy =
     \<lparr>ls_trigger = Some \<lparr>lt_type = Some ''calendar'', lt_minute = None, lt_hour = None,
         lt_day = None, lt_month = None, lt_day_of_week = None,
         lt_seconds = Some 90, lt_run_date = None\<rparr>,
      ls_job_id = None, ls_next_run_time = None\<rparr>"

definition legacy_store :: store where
  "legacy_store =
     empty_store\<lparr>schedules := [example_row],
       json_file := Some (Legacy [(''t1'', cron_legacy), (''t2'', cron_legacy), (''t4'', odd_legacy)])\<rparr>"

definition old_run_store :: store where
  "old_run_store =
     log_task_run ''t1'' ''completed'' 1705305600000000 (Some 1705305660000000) None empty_store"

section \<open>The overlap guard of the timer callback\<close>



text \<open>
  C1. When \<open>task_id\<close> is in \<open>running_tasks\<close>, an invocation of the callback for it
  stops before the \<open>await\<close> (\<open>execute_begin\<close> gives \<open>None\<close>, so the Executor is
  not invoked) and returns the state as it was: no \<open>running\<close> row, no change of
  \<open>running_tasks\<close> or of the registry, no event. The guard is per id: for any other
  registered id that is not running, the callback goes on to the Executor, having taken
  that id's own slot and logged its \<open>running\<close> row.
\<close>

theorem execute_task_skips_running:
  assumes "task_id \<in> running_tasks s"
  shows "execute_begin task_id now s = None
    \<and> execute_task lib ex task_id now end_time s = s
    \<and> (\<forall>other task. other \<noteq> task_id \<longrightarrow> tasks s other = Some task \<longrightarrow> other \<notin> running_tasks s \<longrightarrow>
         (\<exists>s1. execute_begin other now s = Some s1
            \<and> running_tasks s1 = insert other (running_tasks s)
            \<and> task_runs (persistence s1)
                = task_runs (log_task_run other ''running'' now None None (persistence s))
            \<and> execute_task lib ex other now end_time s
                = execute_end lib other now end_time (ex other s1)))"
  using assms
  by (simp add: execute_task_def execute_begin_def notify_listeners_def Let_def split: option.splits)

theorem execute_task_skips_running_witness:
  "''t1'' \<in> running_tasks example_scheduler
   \<and> execute_task example_lib failing_executor ''t1'' 10 20 example_scheduler = example_scheduler
   \<and> (\<exists>s1. execute_begin ''t2'' 10 example_scheduler = Some s1
         \<and> running_tasks s1 = {''t2'', ''t1''}
         \<and> map run_status (task_runs (persistence s1)) = [''running''])"
proof -
  have r: "''t1'' \<in> running_tasks example_scheduler"
    by (simp add: example_scheduler_def)
  note th = execute_task_skips_running [OF r, of 10 example_lib failing_executor 20]
  have a: "execute_task example_lib failing_executor ''t1'' 10 20 example_scheduler = example_scheduler"
    using th by (rule conjunct2 [THEN conjunct1])
  have t2: "''t2'' \<noteq> ''t1''" "tasks example_scheduler ''t2'' = Some example_task"
    "''t2'' \<notin> running_tasks example_scheduler"
    by (simp_all add: example_scheduler_def)
  note ex = th [THEN conjunct2, THEN conjunct2, rule_format, OF t2]
  from ex obtain s1 where s1: "execute_begin ''t2'' 10 example_scheduler = Some s1"
    "running_tasks s1 = insert ''t2'' (running_tasks example_scheduler)"
    "task_runs (persistence s1)
       = task_runs (log_task_run ''t2'' ''running'' 10 None None (persistence example_scheduler))"
    by (elim exE conjE)
  have "running_tasks s1 = {''t2'', ''t1''}"
    using s1(2) by (simp add: example_scheduler_def)
  moreover have "map run_status (task_runs (persistence s1)) = [''running'']"
    using s1(3) by (simp add: example_scheduler_def empty_store_def log_task_run_def)
  ultimately show ?thesis using r a s1(1) by simp
qed



section \<open>The matcher decides the language of a pattern\<close>

inductive_simps in_lang_Eps [simp]: "in_lang Eps w"










lemma newline_not_unit: "ds @ [u] = t @ [CHR 0x0A] \<Longrightarrow> u \<in> set ''smhd'' \<Longrightarrow> False"
  by auto













section \<open>Human-readable descriptions\<close>

text \<open>
  For a numeral without leading zeros, \<open>N\<close> is printed as it was written.
\<close>

lemma int_of_digits_snoc: "int_of_digits (ds @ [c]) = 10 * int_of_digits ds + digit_val c"
  by (simp add: int_of_digits_def)

lemma digit_char_val: "is_digit c \<Longrightarrow> digit_val c < 10 \<and> digit_char (digit_val c) = c"
  by (auto simp: is_digit_def digit_val_def digit_char_def)

lemma str_nat_step: "0 < n \<Longrightarrow> d < 10 \<Longrightarrow> str_nat (10 * n + d) = str_nat n @ [digit_char d]"
  by (subst str_nat.simps) simp

lemma str_nat_no_leading_zero:
  "ds \<noteq> [] \<Longrightarrow> \<forall>c\<in>set ds. is_digit c \<Longrightarrow> hd ds \<noteq> CHR ''0''
     \<Longrightarrow> str_nat (int_of_digits ds) = ds \<and> 0 < int_of_digits ds"
proof (induction ds rule: rev_induct)
  case Nil
  then show ?case by simp
next
  case (snoc c ds)
  show ?case
  proof (cases "ds = []")
    case True
    with snoc.prems have "is_digit c" "c \<noteq> CHR ''0''" by simp_all
    then have "digit_val c < 10 \<and> digit_char (digit_val c) = c \<and> 0 < digit_val c"
      by (auto simp: is_digit_def digit_val_def digit_char_def)
    with True show ?thesis
      by (simp add: int_of_digits_def str_nat.simps)
  next
    case False
    with snoc have ih: "str_nat (int_of_digits ds) = ds" "0 < int_of_digits ds"
      by simp_all
    from snoc.prems have "is_digit c" by simp
    with ih show ?thesis
      by (simp add: int_of_digits_snoc str_nat_step digit_char_val)
  qed
qed











section \<open>Scheduling a task\<close>





lemma schedule_task_no_attr:
  assumes "tasks s task_id = Some task" "parse lib spec start_time now = Some trigger"
    and "job_next_run lib trigger now = None"
  shows "schedule_task lib task_id spec start_time now s =
     (False, s\<lparr>jobs := (jobs s)(new_job_id lib task_id now \<mapsto> new_job lib task_id trigger now),
               scheduled_tasks := (scheduled_tasks s)(task_id \<mapsto> new_job_id lib task_id now)\<rparr>)"
  using assms by (simp add: schedule_task_def Let_def add_job_def new_job_def)



lemmas eval_parse =
  parse_def parse_interval_def startswith_def strip_def py_isspace_def match_num_unit_def
  re_match_def num_unit_rx_def Plus_def digit_def int_of_digits_def digit_val_def
  timedelta_def unit_seconds_def

lemma parse_every_1h: "parse lib ''every 1h'' None now = Some (IntervalTrigger 3600 None)"
  by (simp add: eval_parse)




text \<open>
  With a library whose jobs have no \<open>next_run_time\<close> to read, \<open>schedule_task\<close>
  returns \<open>False\<close> and the job stays registered.
\<close>

lemma schedule_task_no_rollback_example:
  "\<not> fst (schedule_task pending_lib ''t1'' ''every 1h'' None 5000000 (idle_scheduler True))
   \<and> scheduled_tasks (snd (schedule_task pending_lib ''t1'' ''every 1h'' None 5000000 (idle_scheduler True))) ''t1''
       = Some ''task_t1_5.0''
   \<and> map_option job_args (jobs (snd (schedule_task pending_lib ''t1'' ''every 1h'' None 5000000
        (idle_scheduler True))) ''task_t1_5.0'') = Some [''t1'']"
proof -
  have t: "tasks (idle_scheduler True) ''t1'' = Some example_task"
    by (simp add: idle_scheduler_def)
  have n: "job_next_run pending_lib (IntervalTrigger 3600 None) 5000000 = None"
    by (simp add: pending_lib_def)
  have j: "new_job_id pending_lib ''t1'' 5000000 = ''task_t1_5.0''"
    by (simp add: new_job_id_def pending_lib_def example_lib_def str_nat.simps digit_char_def)
  show ?thesis
    unfolding schedule_task_no_attr [OF t parse_every_1h n] j
    by (simp add: new_job_def)
qed



section \<open>Cancelling a task\<close>

lemma remove_job_result:
  "(case remove_job jid (jobs s) of Inl e \<Rightarrow> s | Inr js \<Rightarrow> s\<lparr>jobs := js\<rparr>) = s\<lparr>jobs := (jobs s)(jid := None)\<rparr>"
  by (cases "jobs s jid") (simp_all add: remove_job_def fun_upd_idem)

lemma cancel_task_tracked:
  assumes "scheduled_tasks s task_id = Some jid"
  shows "cancel_task task_id s =
     (True, s\<lparr>jobs := (jobs s)(jid := None),
              scheduled_tasks := (scheduled_tasks s)(task_id := None),
              persistence := delete_schedule task_id (persistence s),
              tasks := (case tasks s task_id of None \<Rightarrow> tasks s
                        | Some task \<Rightarrow> (tasks s)(task_id \<mapsto> task\<lparr>schedule := None, next_run_time := None\<rparr>)),
              events := events s @ [ScheduleRemoved task_id]\<rparr>)"
  using assms
  by (simp add: cancel_task_def remove_job_result notify_listeners_def Let_def split: option.splits)

lemma delete_schedule_ok:
  "db_ok st \<Longrightarrow> schedules (delete_schedule task_id st) = filter (\<lambda>r. row_task_id r \<noteq> task_id) (schedules st)
     \<and> \<not> has_schedule task_id (schedules (delete_schedule task_id st))"
  by (auto simp: delete_schedule_def has_schedule_def)

text \<open>
  C8. \<open>cancel_task\<close> returns \<open>False\<close> and changes nothing when \<open>task_id\<close>
  is not in \<open>scheduled_tasks\<close>. Otherwise it returns \<open>True\<close>, and afterwards
  the timer job is gone (whether or not the engine still knew it), \<open>task_id\<close> is
  out of \<open>scheduled_tasks\<close>, the registry entry, if any, has \<open>schedule\<close> and
  \<open>next_run_time\<close> cleared, a \<open>schedule_removed\<close> event was sent, and
  \<open>get_task_schedule\<close> gives nothing. The persisted row is deleted when the store
  works; a storage error is swallowed by \<open>delete_schedule\<close>, which then leaves the
  store as it was.
\<close>

theorem cancel_task_spec:
  "(scheduled_tasks s task_id = None \<longrightarrow> cancel_task task_id s = (False, s))
   \<and> (\<forall>jid. scheduled_tasks s task_id = Some jid \<longrightarrow>
        (\<exists>s'. cancel_task task_id s = (True, s')
           \<and> jobs s' = (jobs s)(jid := None)
           \<and> scheduled_tasks s' = (scheduled_tasks s)(task_id := None)
           \<and> persistence s' = delete_schedule task_id (persistence s)
           \<and> (db_ok (persistence s) \<longrightarrow>
                 schedules (persistence s')
                   = filter (\<lambda>r. row_task_id r \<noteq> task_id) (schedules (persistence s))
                 \<and> \<not> has_schedule task_id (schedules (persistence s')))
           \<and> (\<forall>task. tasks s task_id = Some task \<longrightarrow>
                 tasks s' = (tasks s)(task_id \<mapsto> task\<lparr>schedule := None, next_run_time := None\<rparr>))
           \<and> events s' = events s @ [ScheduleRemoved task_id]
           \<and> running_tasks s' = running_tasks s
           \<and> get_task_schedule lib s' task_id = None))"
proof -
  have 1: "scheduled_tasks s task_id = None \<longrightarrow> cancel_task task_id s = (False, s)"
    by (simp add: cancel_task_def)
  have 2: "\<exists>s'. cancel_task task_id s = (True, s')
           \<and> jobs s' = (jobs s)(jid := None)
           \<and> scheduled_tasks s' = (scheduled_tasks s)(task_id := None)
           \<and> persistence s' = delete_schedule task_id (persistence s)
           \<and> (db_ok (persistence s) \<longrightarrow>
                 schedules (persistence s')
                   = filter (\<lambda>r. row_task_id r \<noteq> task_id) (schedules (persistence s))
                 \<and> \<not> has_schedule task_id (schedules (persistence s')))
           \<and> (\<forall>task. tasks s task_id = Some task \<longrightarrow>
                 tasks s' = (tasks s)(task_id \<mapsto> task\<lparr>schedule := None, next_run_time := None\<rparr>))
           \<and> events s' = events s @ [ScheduleRemoved task_id]
           \<and> running_tasks s' = running_tasks s
           \<and> get_task_schedule lib s' task_id = None"
    if "scheduled_tasks s task_id = Some jid" for jid
    unfolding cancel_task_tracked [OF that]
    using delete_schedule_ok [of "persistence s" task_id]
    by (auto simp: get_task_schedule_def)
  from 1 2 show ?thesis by blast
qed


lemmas eval_tracked =
  tracked_scheduler_def example_job_def example_row_def example_task_def empty_store_def

theorem cancel_task_spec_witness:
  "cancel_task ''t9'' (tracked_scheduler True True) = (False, tracked_scheduler True True)
   \<and> get_task_schedule example_lib (tracked_scheduler True True) ''t1'' \<noteq> None
   \<and> (\<exists>s'. cancel_task ''t1'' (tracked_scheduler True True) = (True, s')
          \<and> jobs s' ''task_t1_5.0'' = None
          \<and> scheduled_tasks s' ''t1'' = None
          \<and> schedules (persistence s') = []
          \<and> map_option schedule (tasks s' ''t1'') = Some None
          \<and> map_option next_run_time (tasks s' ''t1'') = Some None
          \<and> events s' = [ScheduleRemoved ''t1'']
          \<and> get_task_schedule example_lib s' ''t1'' = None)"
proof -
  note th1 = cancel_task_spec [of "tracked_scheduler True True" "''t9''" example_lib]
  note th2 = cancel_task_spec [of "tracked_scheduler True True" "''t1''" example_lib]
  have a: "cancel_task ''t9'' (tracked_scheduler True True) = (False, tracked_scheduler True True)"
    by (rule th1 [THEN conjunct1, rule_format]) (simp add: tracked_scheduler_def)
  have b: "get_task_schedule example_lib (tracked_scheduler True True) ''t1'' \<noteq> None"
    by (simp add: get_task_schedule_def get_schedule_def eval_tracked)
  have t: "scheduled_tasks (tracked_scheduler True True) ''t1'' = Some ''task_t1_5.0''"
    by (simp add: tracked_scheduler_def)
  from th2 [THEN conjunct2, rule_format, OF t]
  obtain s' where s': "cancel_task ''t1'' (tracked_scheduler True True) = (True, s')"
    "jobs s' = (jobs (tracked_scheduler True True))(''task_t1_5.0'' := None)"
    "scheduled_tasks s' = (scheduled_tasks (tracked_scheduler True True))(''t1'' := None)"
    "db_ok (persistence (tracked_scheduler True True)) \<longrightarrow>
       schedules (persistence s')
         = filter (\<lambda>r. row_task_id r \<noteq> ''t1'') (schedules (persistence (tracked_scheduler True True)))
       \<and> \<not> has_schedule ''t1'' (schedules (persistence s'))"
    "\<forall>task. tasks (tracked_scheduler True True) ''t1'' = Some task \<longrightarrow>
       tasks s' = (tasks (tracked_scheduler True True))(''t1'' \<mapsto> task\<lparr>schedule := None, next_run_time := None\<rparr>)"
    "events s' = events (tracked_scheduler True True) @ [ScheduleRemoved ''t1'']"
    "get_task_schedule example_lib s' ''t1'' = None"
    by (elim exE conjE)
  have c: "jobs s' ''task_t1_5.0'' = None" "scheduled_tasks s' ''t1'' = None"
    "events s' = [ScheduleRemoved ''t1'']"
    using s'(2,3,6) by (simp_all add: tracked_scheduler_def)
  have d: "schedules (persistence s') = []"
    using s'(4) by (simp add: eval_tracked)
  have e: "map_option schedule (tasks s' ''t1'') = Some None"
    "map_option next_run_time (tasks s' ''t1'') = Some None"
    using s'(5) by (simp_all add: eval_tracked)
  show ?thesis using a b s'(1,7) c d e by simp
qed

text \<open>
  With a failing store, \<open>cancel_task\<close> returns \<open>True\<close> and the row is still
  there.
\<close>

theorem cancel_task_storage_counterexample:
  "fst (cancel_task ''t1'' (tracked_scheduler True False))
   \<and> has_schedule ''t1'' (schedules (persistence (snd (cancel_task ''t1'' (tracked_scheduler True False)))))"
  by (simp add: cancel_task_def remove_job_def notify_listeners_def delete_schedule_def
      has_schedule_def eval_tracked)

text \<open>
  C10. When \<open>task_id\<close> is tracked but no longer in the registry, \<open>cancel_task\<close>
  returns \<open>True\<close> with the job removed, the tracking entry removed,
  \<open>delete_schedule\<close> applied to the store and \<open>schedule_removed\<close> sent; the
  registry is not touched. The persisted row is deleted when the store works.
\<close>

theorem cancel_task_unregistered:
  assumes "scheduled_tasks s task_id = Some jid" and "tasks s task_id = None"
  shows "cancel_task task_id s =
       (True, s\<lparr>jobs := (jobs s)(jid := None),
                scheduled_tasks := (scheduled_tasks s)(task_id := None),
                persistence := delete_schedule task_id (persistence s),
                events := events s @ [ScheduleRemoved task_id]\<rparr>)
     \<and> (db_ok (persistence s) \<longrightarrow>
          \<not> has_schedule task_id (schedules (delete_schedule task_id (persistence s))))"
  using assms delete_schedule_ok [of "persistence s" task_id]
  by (auto simp: cancel_task_tracked)

theorem cancel_task_unregistered_witness:
  "scheduled_tasks (tracked_scheduler False True) ''t1'' = Some ''task_t1_5.0''
   \<and> tasks (tracked_scheduler False True) ''t1'' = None
   \<and> cancel_task ''t1'' (tracked_scheduler False True) =
       (True, \<lparr>tasks = Map.empty, scheduled_tasks = Map.empty, running_tasks = {},
               jobs = Map.empty, persistence = empty_store, events = [ScheduleRemoved ''t1'']\<rparr>)"
proof -
  have a: "scheduled_tasks (tracked_scheduler False True) ''t1'' = Some ''task_t1_5.0''"
    and b: "tasks (tracked_scheduler False True) ''t1'' = None"
    by (simp_all add: tracked_scheduler_def)
  from cancel_task_unregistered [OF a b, THEN conjunct1]
  show ?thesis using a b
    by (simp add: eval_tracked delete_schedule_def)
qed

text \<open>
  With a failing store and the task gone from the registry, \<open>cancel_task\<close> returns
  \<open>True\<close> and the row is still there.
\<close>

theorem cancel_task_unregistered_counterexample:
  "tasks (tracked_scheduler False False) ''t1'' = None
   \<and> fst (cancel_task ''t1'' (tracked_scheduler False False))
   \<and> schedules (persistence (snd (cancel_task ''t1'' (tracked_scheduler False False)))) = [example_row]"
  by (simp add: cancel_task_def remove_job_def notify_listeners_def delete_schedule_def eval_tracked)

section \<open>Reloading the schedules at startup\<close>

text \<open>The store's operations keep the task ids of the \<open>schedules\<close> table distinct.\<close>

lemma save_schedule_task_ids:
  "map row_task_id (schedules (save_schedule t j ty v n st))
     = (if db_ok st \<and> \<not> has_schedule t (schedules st)
        then map row_task_id (schedules st) @ [t] else map row_task_id (schedules st))"
proof -
  have "(row_task_id \<circ> (\<lambda>r. if row_task_id r = t
          then r\<lparr>row_job_id := j, row_schedule_type := ty, row_schedule_value := v,
                 row_next_run_time := x\<rparr> else r)) = row_task_id" for x
    by (rule ext) simp
  then show ?thesis
    by (simp add: save_schedule_def Let_def)
qed

lemma save_schedule_distinct:
  "distinct (map row_task_id (schedules st))
     \<Longrightarrow> distinct (map row_task_id (schedules (save_schedule t j ty v n st)))"
  unfolding save_schedule_task_ids by (simp add: has_schedule_def)

lemma delete_schedule_distinct:
  "distinct (map row_task_id (schedules st))
     \<Longrightarrow> distinct (map row_task_id (schedules (delete_schedule t st)))"
  by (simp add: delete_schedule_def distinct_map_filter)











lemma after_first_colon_at: "after_first_colon (''at:'' @ d) = Some d"
  by (simp add: after_first_colon_def)








section \<open>Retention cleanup\<close>

lemma text_lt_common_prefix: "text_lt (p @ a) (p @ b) = text_lt a b"
  by (induction p) simp_all

lemma text_lt_T_space: "\<not> text_lt (CHR ''T'' # a) (CHR '' '' # b)"
  by simp

lemma same_day_not_less:
  "format_date t = format_date cutoff \<Longrightarrow> \<not> text_lt (isoformat t) (sqlite_datetime cutoff)"
  by (simp add: isoformat_def sqlite_datetime_def text_lt_common_prefix)

lemma cleanup_keeps_cutoff_day:
  assumes "db_ok st" "r \<in> set (task_runs st)" "run_start_time r = Some (isoformat t)"
    and "format_date t = format_date (now - int days * 86400000000)"
  shows "r \<in> set (task_runs (cleanup_old_runs days now st))"
  using assms by (simp add: cleanup_old_runs_def Let_def same_day_not_less)

lemma cleanup_old_runs_frame:
  "schedules (cleanup_old_runs days now st) = schedules st
   \<and> set (task_runs (cleanup_old_runs days now st)) \<subseteq> set (task_runs st)"
  by (auto simp: cleanup_old_runs_def Let_def)

text \<open>
  C9. Retention cleanup is not exact. \<open>log_task_run\<close> stores \<open>start_time\<close> in
  Python's ISO format, with \<open>T\<close> between date and time; SQLite's \<open>datetime\<close>
  prints the cutoff with a space there, and the two are compared as text. A run that
  started on the day of the cutoff therefore never compares smaller, whatever its time
  of day. Here a run of 2024-01-15 08:00 is cleaned up on 2024-02-14 at 12:00 with a
  retention of 30 days: it is four hours older than the cutoff, and it is kept. (The
  scheduler's clock and SQLite's are taken to agree.)
\<close>

theorem cleanup_old_runs_keeps_old_run:
  "task_runs old_run_store =
     [\<lparr>run_task_id = ''t1'', run_status = ''completed'',
       run_start_time = Some ''2024-01-15T08:00:00'', run_end_time = Some ''2024-01-15T08:01:00'',
       run_error = None\<rparr>]
   \<and> isoformat 1707912000000000 = ''2024-02-14T12:00:00''
   \<and> sqlite_datetime (1707912000000000 - int 30 * 86400000000) = ''2024-01-15 12:00:00''
   \<and> (1705305600000000 :: int) < 1707912000000000 - int 30 * 86400000000
   \<and> task_runs (cleanup_old_runs 30 1707912000000000 old_run_store) = task_runs old_run_store"
proof -
  have i: "isoformat 1705305600000000 = ''2024-01-15T08:00:00''"
    "isoformat 1705305660000000 = ''2024-01-15T08:01:00''"
    "isoformat 1707912000000000 = ''2024-02-14T12:00:00''"
    by code_simp+
  have c: "sqlite_datetime (1707912000000000 - int 30 * 86400000000) = ''2024-01-15 12:00:00''"
    by code_simp
  have r: "task_runs old_run_store =
     [\<lparr>run_task_id = ''t1'', run_status = ''completed'',
       run_start_time = Some ''2024-01-15T08:00:00'', run_end_time = Some ''2024-01-15T08:01:00'',
       run_error = None\<rparr>]"
    by (simp add: old_run_store_def log_task_run_def empty_store_def i)
  have ok: "db_ok old_run_store"
    by (simp add: old_run_store_def log_task_run_def empty_store_def)
  have c': "sqlite_datetime 1705320000000000 = ''2024-01-15 12:00:00''"
    by code_simp
  have k: "task_runs (cleanup_old_runs 30 1707912000000000 old_run_store) = task_runs old_run_store"
    using ok by (simp add: cleanup_old_runs_def Let_def c' r)
  from r i(3) c k show ?thesis by simp
qed

section \<open>Migration of the legacy file\<close>


lemma has_schedule_append [simp]:
  "has_schedule t (xs @ ys) \<longleftrightarrow> has_schedule t xs \<or> has_schedule t ys"
  by (auto simp: has_schedule_def)

lemma has_schedule_legacy_row [simp]: "has_schedule t [legacy_row t' e] \<longleftrightarrow> t = t'"
  by (auto simp: has_schedule_def legacy_row_def)


















lemmas eval_legacy =
  legacy_store_def cron_legacy_def odd_legacy_def empty_store_def example_row_def



section \<open>The parser accepts only the grammar\<close>










































end
